theory Spec2Isabelle
  imports Main "HOL-Library.Sublist"
begin

section \<open>JavaScript values\<close>

text \<open>
  The frontend handles strings it owns (the input box, the audio URL, the session id) and
  values it receives: \<^verbatim>\<open>response.data\<close> and \<^verbatim>\<open>error.response.data\<close> are whatever
  JSON the service sent. A \<open>string\<close> is a list of characters, each standing for a code unit
  below 256. An object is the list of its properties, each key listed once.
\<close>

text \<open>
  A number is a double. The program never computes with one: it tests its truthiness
  and interpolates it into a string. So a number is given by these two observations:
  whether it is truthy (neither zero nor NaN), and the string its conversion to a string
  yields (\<^verbatim>\<open>0.5\<close> for 0.5, \<^verbatim>\<open>1e+21\<close> for 1e21).
\<close>

datatype jsnumber = JsNumber (number_truthy: bool) (number_string: string)

datatype jsval =
    JUndefined
  | JNull
  | JBool bool
  | JNum jsnumber
  | JStr string
  | JArr "jsval list"
  | JObj "(string \<times> jsval) list"

text \<open>What a \<^verbatim>\<open>throw\<close> carries: an \<^verbatim>\<open>Error\<close> built by the program, or a
  \<^verbatim>\<open>TypeError\<close> raised by the engine. Both have a \<^verbatim>\<open>message\<close>.\<close>

datatype js_exn = Error string | TypeError string

fun exn_message :: "js_exn \<Rightarrow> string" where
  "exn_message (Error m) = m"
| "exn_message (TypeError m) = m"

text \<open>Truthiness, as \<^verbatim>\<open>if (v)\<close> and \<^verbatim>\<open>v || w\<close> test it.\<close>

fun js_truthy :: "jsval \<Rightarrow> bool" where
  "js_truthy JUndefined = False"
| "js_truthy JNull = False"
| "js_truthy (JBool b) = b"
| "js_truthy (JNum n) = number_truthy n"
| "js_truthy (JStr s) = (s \<noteq> [])"
| "js_truthy (JArr xs) = True"
| "js_truthy (JObj kvs) = True"

definition js_or :: "jsval \<Rightarrow> jsval \<Rightarrow> jsval" where
  "js_or v w = (if js_truthy v then v else w)"

text \<open>
  Reading a property \<^verbatim>\<open>v.p\<close>. On \<^verbatim>\<open>undefined\<close> and \<^verbatim>\<open>null\<close> the engine throws a
  TypeError (the message is V8's). On an object the value stored under the key, or
  \<^verbatim>\<open>undefined\<close>. The program reads only the properties \<^verbatim>\<open>error\<close>, \<^verbatim>\<open>transcription\<close>,
  \<^verbatim>\<open>response\<close>, \<^verbatim>\<open>agent_used\<close> and \<^verbatim>\<open>session_id\<close>, which no string, number, boolean or
  array has: there the result is \<^verbatim>\<open>undefined\<close>.
\<close>

definition cannot_read :: "string \<Rightarrow> string \<Rightarrow> string" where
  "cannot_read what p =
     ''Cannot read properties of '' @ what @ '' (reading '' @ [CHR 0x27] @ p @ [CHR 0x27] @ '')''"

fun get_prop :: "jsval \<Rightarrow> string \<Rightarrow> js_exn + jsval" where
  "get_prop JUndefined p = Inl (TypeError (cannot_read ''undefined'' p))"
| "get_prop JNull p = Inl (TypeError (cannot_read ''null'' p))"
| "get_prop (JObj kvs) p = Inr (case map_of kvs p of None \<Rightarrow> JUndefined | Some v \<Rightarrow> v)"
| "get_prop v p = Inr JUndefined"

fun join_with :: "string \<Rightarrow> string list \<Rightarrow> string" where
  "join_with sep [] = []"
| "join_with sep [x] = x"
| "join_with sep (x # y # ys) = x @ sep @ join_with sep (y # ys)"

text \<open>The results of a list of conversions, or the first error among them.\<close>

fun all_or_first_error :: "('e + 'a) list \<Rightarrow> 'e + 'a list" where
  "all_or_first_error [] = Inr []"
| "all_or_first_error (Inl e # rs) = Inl e"
| "all_or_first_error (Inr a # rs) =
     (case all_or_first_error rs of Inl e \<Rightarrow> Inl e | Inr rest \<Rightarrow> Inr (a # rest))"

text \<open>
  The conversion a template literal applies to an interpolated value. A number gives its
  string. An array joins the conversions of its elements with commas, \<^verbatim>\<open>null\<close> and
  \<^verbatim>\<open>undefined\<close> elements giving the empty string. An object parsed from JSON gives
  \<^verbatim>\<open>[object Object]\<close>, unless it has a key \<^verbatim>\<open>toString\<close> of its own: the value under it is
  no function, and the engine throws a TypeError (the message is V8's).
\<close>

fun js_toString :: "jsval \<Rightarrow> js_exn + string" where
  "js_toString JUndefined = Inr ''undefined''"
| "js_toString JNull = Inr ''null''"
| "js_toString (JBool b) = Inr (if b then ''true'' else ''false'')"
| "js_toString (JNum n) = Inr (number_string n)"
| "js_toString (JStr s) = Inr s"
| "js_toString (JArr xs) =
     (case all_or_first_error
             (map (\<lambda>x. if x = JUndefined \<or> x = JNull then Inr [] else js_toString x) xs) of
        Inl e \<Rightarrow> Inl e
      | Inr parts \<Rightarrow> Inr (join_with '','' parts))"
| "js_toString (JObj kvs) =
     (if ''toString'' \<in> set (map fst kvs)
      then Inl (TypeError ''Cannot convert object to primitive value'')
      else Inr ''[object Object]'')"

section \<open>The API service layer (services/api.js)\<close>

subsection \<open>The axios instance and its requests\<close>

datatype http_method = GET | POST | DELETE

record axios_config =
  cfg_baseURL :: string
  cfg_headers :: "(string \<times> string) list"
  cfg_timeout :: "nat option"

definition API_BASE_URL :: string where
  "API_BASE_URL = ''http://localhost:5000''"

text \<open>\<^verbatim>\<open>axios.create\<close>: a base URL and a header, and no \<^verbatim>\<open>timeout\<close> key.\<close>

definition api :: axios_config where
  "api = \<lparr>cfg_baseURL = API_BASE_URL,
          cfg_headers = [(''Content-Type'', ''application/json'')],
          cfg_timeout = None\<rparr>"

text \<open>
  A request as the instance sends it: the instance's defaults, overridden by the
  configuration of the call. \<open>req_timeout = None\<close> is axios's default, no timeout.
\<close>

record request =
  req_method :: http_method
  req_baseURL :: string
  req_url :: string
  req_headers :: "(string \<times> string) list"
  req_data :: "jsval option"
  req_timeout :: "nat option"

definition mk_request :: "http_method \<Rightarrow> string \<Rightarrow> jsval option \<Rightarrow> nat option \<Rightarrow> request" where
  "mk_request m path body tmo =
     \<lparr>req_method = m, req_baseURL = cfg_baseURL api, req_url = path,
      req_headers = cfg_headers api, req_data = body,
      req_timeout = (case tmo of Some t \<Rightarrow> Some t | None \<Rightarrow> cfg_timeout api)\<rparr>"

text \<open>
  The promise of a request resolves with \<^verbatim>\<open>response.data\<close> or rejects with an error that
  has a \<^verbatim>\<open>message\<close> and, when the service answered, \<^verbatim>\<open>response.data\<close>.
\<close>

record axios_error =
  err_message :: string
  err_response :: "jsval option"

datatype axios_outcome = Resolved jsval | Rejected axios_error

text \<open>
  The service is a parameter: what it answers to a request, given the requests sent
  before. Sending a request appends it to the list of requests sent.
\<close>

type_synonym backend = "request list \<Rightarrow> request \<Rightarrow> axios_outcome"

definition axios_request :: "backend \<Rightarrow> request \<Rightarrow> request list \<Rightarrow> axios_outcome \<times> request list" where
  "axios_request be r net = (be net r, net @ [r])"

subsection \<open>The catch blocks\<close>

text \<open>The catch block of healthCheck, getSessions and getStatus: an \<^verbatim>\<open>Error\<close> whose
  message is the operation's label followed by \<^verbatim>\<open>error.message\<close>.\<close>

definition rethrow_plain :: "string \<Rightarrow> axios_error \<Rightarrow> js_exn" where
  "rethrow_plain label e = Error (label @ '': '' @ err_message e)"

text \<open>
  The catch block of the other five operations:
  when \<^verbatim>\<open>error.response\<close> is there, the label followed by
  \<^verbatim>\<open>error.response.data.error || error.message\<close>; otherwise \<^verbatim>\<open>Network error:\<close> followed by
  \<^verbatim>\<open>error.message\<close>.
  Reading \<^verbatim>\<open>.error\<close> of a \<^verbatim>\<open>null\<close> body throws a TypeError out of the catch block, and so
  does a detail that cannot be converted to a string.
\<close>

definition rethrow_detail :: "string \<Rightarrow> axios_error \<Rightarrow> js_exn" where
  "rethrow_detail label e =
     (case err_response e of
        Some body \<Rightarrow>
          (case get_prop body ''error'' of
             Inl te \<Rightarrow> te
           | Inr detail \<Rightarrow>
               (case js_toString (js_or detail (JStr (err_message e))) of
                  Inl te \<Rightarrow> te
                | Inr shown \<Rightarrow> Error (label @ '': '' @ shown)))
      | None \<Rightarrow> Error (''Network error: '' @ err_message e))"

subsection \<open>The eight operations\<close>

type_synonym 'a io = "request list \<Rightarrow> (js_exn + 'a) \<times> request list"

definition healthCheck :: "backend \<Rightarrow> jsval io" where
  "healthCheck be net =
     (case axios_request be (mk_request GET ''/health'' None None) net of
        (Resolved d, net') \<Rightarrow> (Inr d, net')
      | (Rejected e, net') \<Rightarrow> (Inl (rethrow_plain ''Health check failed'' e), net'))"

definition sendChatMessage :: "backend \<Rightarrow> jsval \<Rightarrow> jsval \<Rightarrow> jsval io" where
  "sendChatMessage be message sessionId net =
     (let payload = [(''message'', message)];
          payload = (if js_truthy sessionId then payload @ [(''session_id'', sessionId)]
                     else payload)
      in case axios_request be (mk_request POST ''/api/chat'' (Some (JObj payload)) None) net of
           (Resolved d, net') \<Rightarrow> (Inr d, net')
         | (Rejected e, net') \<Rightarrow> (Inl (rethrow_detail ''Chat request failed'' e), net'))"

definition extractMedicalInfo :: "backend \<Rightarrow> jsval \<Rightarrow> jsval io" where
  "extractMedicalInfo be txt net =
     (case axios_request be (mk_request POST ''/api/extract'' (Some (JObj [(''text'', txt)])) None) net of
        (Resolved d, net') \<Rightarrow> (Inr d, net')
      | (Rejected e, net') \<Rightarrow> (Inl (rethrow_detail ''Extraction failed'' e), net'))"

definition generateDiagnosis :: "backend \<Rightarrow> jsval \<Rightarrow> jsval io" where
  "generateDiagnosis be structuredInfo net =
     (case axios_request be
             (mk_request POST ''/api/diagnose'' (Some (JObj [(''structured_info'', structuredInfo)])) None)
             net of
        (Resolved d, net') \<Rightarrow> (Inr d, net')
      | (Rejected e, net') \<Rightarrow> (Inl (rethrow_detail ''Diagnosis generation failed'' e), net'))"

definition getSessions :: "backend \<Rightarrow> jsval io" where
  "getSessions be net =
     (case axios_request be (mk_request GET ''/api/sessions'' None None) net of
        (Resolved d, net') \<Rightarrow> (Inr d, net')
      | (Rejected e, net') \<Rightarrow> (Inl (rethrow_plain ''Failed to get sessions'' e), net'))"

text \<open>The session id deleteSession is given is a key of the sessions list, a string.\<close>

definition deleteSession :: "backend \<Rightarrow> string \<Rightarrow> jsval io" where
  "deleteSession be sessionId net =
     (case axios_request be
             (mk_request DELETE (''/api/sessions/'' @ sessionId) None None) net of
        (Resolved d, net') \<Rightarrow> (Inr d, net')
      | (Rejected e, net') \<Rightarrow> (Inl (rethrow_detail ''Failed to delete session'' e), net'))"

text \<open>
  transcribeAudioFromUrl returns \<^verbatim>\<open>response.data.transcription\<close>. That read is inside
  the \<^verbatim>\<open>try\<close>: on a \<^verbatim>\<open>null\<close> body its TypeError, which has no \<^verbatim>\<open>response\<close>, is caught
  and rethrown as a network error.
\<close>

definition transcribeAudioFromUrl :: "backend \<Rightarrow> jsval \<Rightarrow> jsval io" where
  "transcribeAudioFromUrl be audioUrl net =
     (case axios_request be
             (mk_request POST ''/api/transcribe-url'' (Some (JObj [(''audio_url'', audioUrl)]))
                (Some 120000))
             net of
        (Resolved d, net') \<Rightarrow>
          (case get_prop d ''transcription'' of
             Inr t \<Rightarrow> (Inr t, net')
           | Inl te \<Rightarrow> (Inl (Error (''Network error: '' @ exn_message te)), net'))
      | (Rejected e, net') \<Rightarrow> (Inl (rethrow_detail ''Audio transcription failed'' e), net'))"

definition getStatus :: "backend \<Rightarrow> jsval io" where
  "getStatus be net =
     (case axios_request be (mk_request GET ''/api/status'' None None) net of
        (Resolved d, net') \<Rightarrow> (Inr d, net')
      | (Rejected e, net') \<Rightarrow> (Inl (rethrow_plain ''Failed to get system status'' e), net'))"

text \<open>The exported object \<^verbatim>\<open>apiService\<close>: one entry per operation.\<close>

datatype api_call =
    HealthCheck
  | SendChatMessage jsval jsval
  | ExtractMedicalInfo jsval
  | GenerateDiagnosis jsval
  | GetSessions
  | DeleteSession string
  | TranscribeAudioFromUrl jsval
  | GetStatus

fun apiService :: "backend \<Rightarrow> api_call \<Rightarrow> jsval io" where
  "apiService be HealthCheck = healthCheck be"
| "apiService be (SendChatMessage message sessionId) = sendChatMessage be message sessionId"
| "apiService be (ExtractMedicalInfo txt) = extractMedicalInfo be txt"
| "apiService be (GenerateDiagnosis structuredInfo) = generateDiagnosis be structuredInfo"
| "apiService be GetSessions = getSessions be"
| "apiService be (DeleteSession sessionId) = deleteSession be sessionId"
| "apiService be (TranscribeAudioFromUrl audioUrl) = transcribeAudioFromUrl be audioUrl"
| "apiService be GetStatus = getStatus be"

section \<open>The chat component (components/ChatInterface.js)\<close>

subsection \<open>State\<close>

text \<open>A message of the transcript. \<open>agentUsed\<close> and \<open>msg_sessionId\<close> are \<open>None\<close> on the
  messages whose object literal has no such property.\<close>

record message =
  msg_id :: string
  msg_type :: string
  content :: jsval
  timestamp :: nat
  agentUsed :: "jsval option"
  msg_sessionId :: "jsval option"

text \<open>The part of a parsed URL the component reads.\<close>

record jsurl =
  pathname :: string

text \<open>
  What the component takes from its platform: the service behind the API layer, the
  \<^verbatim>\<open>URL\<close> constructor (\<open>None\<close> when it throws), \<^verbatim>\<open>uuidv4()\<close> and \<^verbatim>\<open>new Date()\<close>, the last
  two as functions of how many times they were called before.
\<close>

record platform =
  service :: backend
  parseURL :: "string \<Rightarrow> jsurl option"
  uuidv4 :: "nat \<Rightarrow> string"
  newDate :: "nat \<Rightarrow> nat"

text \<open>
  The component's state variables, followed by the traces of its effects: the requests
  sent, the alerts shown, and the numbers of identifiers drawn and dates read.
\<close>

record chat =
  messages :: "message list"
  inputMessage :: string
  isLoading :: bool
  isProcessingAudio :: bool
  showAudioUrlModal :: bool
  audioUrl :: string
  notification :: "string option"
  sessionId :: string
  sent :: "request list"
  alerts :: "string list"
  uuids_drawn :: nat
  dates_read :: nat

definition draw_uuid :: "platform \<Rightarrow> chat \<Rightarrow> string \<times> chat" where
  "draw_uuid P s = (uuidv4 P (uuids_drawn s), s\<lparr>uuids_drawn := Suc (uuids_drawn s)\<rparr>)"

definition read_date :: "platform \<Rightarrow> chat \<Rightarrow> nat \<times> chat" where
  "read_date P s = (newDate P (dates_read s), s\<lparr>dates_read := Suc (dates_read s)\<rparr>)"

definition setMessages :: "(message list \<Rightarrow> message list) \<Rightarrow> chat \<Rightarrow> chat" where
  "setMessages f s = s\<lparr>messages := f (messages s)\<rparr>"

subsection \<open>Strings\<close>

text \<open>\<^verbatim>\<open>String.prototype.trim\<close>: white space and line terminators, among the code units
  below 256.\<close>

definition is_whitespace :: "char \<Rightarrow> bool" where
  "is_whitespace c = (of_char c \<in> {9, 10, 11, 12, 13, 32, 160 :: nat})"

definition js_trim :: "string \<Rightarrow> string" where
  "js_trim s = rev (dropWhile is_whitespace (rev (dropWhile is_whitespace s)))"

definition lower_char :: "char \<Rightarrow> char" where
  "lower_char c =
     (let n = of_char c :: nat
      in if (65 \<le> n \<and> n \<le> 90) \<or> (192 \<le> n \<and> n \<le> 222 \<and> n \<noteq> 215) then char_of (n + 32) else c)"

definition toLowerCase :: "string \<Rightarrow> string" where
  "toLowerCase s = map lower_char s"

text \<open>\<^verbatim>\<open>s.includes(t)\<close>: \<open>t\<close> occurs in \<open>s\<close> as a run of consecutive characters.\<close>

definition js_includes :: "string \<Rightarrow> string \<Rightarrow> bool" where
  "js_includes s t = sublist t s"

subsection \<open>handleSendMessage\<close>

text \<open>
  The block that adds the AI response, which both handlers have. The object literal
  draws the identifier first and reads the date after \<^verbatim>\<open>response.agent_used\<close>; reading
  a property of a \<^verbatim>\<open>null\<close> response throws. The result is \<open>Inl\<close> of the error thrown and
  the state at the throw, or \<open>Inr\<close> of the state.
\<close>

definition add_ai_message :: "platform \<Rightarrow> jsval \<Rightarrow> chat \<Rightarrow> (js_exn \<times> chat) + chat" where
  "add_ai_message P response s =
     (let (uid, s1) = draw_uuid P s
      in case get_prop response ''response'' of
           Inl te \<Rightarrow> Inl (te, s1)
         | Inr c \<Rightarrow>
             (case get_prop response ''agent_used'' of
                Inl te \<Rightarrow> Inl (te, s1)
              | Inr a \<Rightarrow>
                  (let (t, s2) = read_date P s1
                   in case get_prop response ''session_id'' of
                        Inl te \<Rightarrow> Inl (te, s2)
                      | Inr sid \<Rightarrow>
                          Inr (setMessages
                                 (\<lambda>prev. prev @
                                    [\<lparr>msg_id = uid, msg_type = ''ai'', content = c, timestamp = t,
                                      agentUsed = Some a, msg_sessionId = Some sid\<rparr>])
                                 s2))))"

text \<open>The \<^verbatim>\<open>try\<close> block of handleSendMessage.\<close>

definition send_try :: "platform \<Rightarrow> message \<Rightarrow> string \<Rightarrow> chat \<Rightarrow> (js_exn \<times> chat) + chat" where
  "send_try P userMessage sid s =
     (let (r, net') = sendChatMessage (service P) (content userMessage) (JStr sid) (sent s);
          s1 = s\<lparr>sent := net'\<rparr>
      in case r of
           Inl e \<Rightarrow> Inl (e, s1)
         | Inr response \<Rightarrow> add_ai_message P response s1)"

text \<open>Its \<^verbatim>\<open>catch\<close> block.\<close>

definition send_catch :: "platform \<Rightarrow> js_exn \<Rightarrow> chat \<Rightarrow> chat" where
  "send_catch P e s =
     (let (uid, s1) = draw_uuid P s;
          (t, s2) = read_date P s1
      in setMessages
           (\<lambda>prev. prev @
              [\<lparr>msg_id = uid, msg_type = ''error'', content = JStr (''Error: '' @ exn_message e),
                timestamp = t, agentUsed = None, msg_sessionId = None\<rparr>])
           s2)"

definition handleSendMessage :: "platform \<Rightarrow> chat \<Rightarrow> chat" where
  "handleSendMessage P s =
     (if js_trim (inputMessage s) = [] \<or> isLoading s then s
      else
        let (uid, s1) = draw_uuid P s;
            (t, s2) = read_date P s1;
            userMessage = \<lparr>msg_id = uid, msg_type = ''user'',
                            content = JStr (js_trim (inputMessage s)), timestamp = t,
                            agentUsed = None, msg_sessionId = None\<rparr>;
            s3 = setMessages (\<lambda>prev. prev @ [userMessage]) s2;
            s4 = s3\<lparr>inputMessage := [], isLoading := True\<rparr>;
            s5 = (case send_try P userMessage (sessionId s) s4 of
                    Inr s' \<Rightarrow> s'
                  | Inl (e, s') \<Rightarrow> send_catch P e s')
        in s5\<lparr>isLoading := False\<rparr>)"

subsection \<open>validateAudioUrl\<close>

definition audioExtensions :: "string list" where
  "audioExtensions = [''mp3'', ''wav'', ''m4a'', ''ogg'', ''flac'', ''aac'']"

text \<open>Both \<^verbatim>\<open>new URL(url)\<close> are inside the \<^verbatim>\<open>try\<close>, whose \<^verbatim>\<open>catch\<close> returns false.\<close>

definition validateAudioUrl :: "(string \<Rightarrow> jsurl option) \<Rightarrow> string \<Rightarrow> bool" where
  "validateAudioUrl parse u =
     (case parse u of
        None \<Rightarrow> False
      | Some _ \<Rightarrow>
          (case parse u of
             None \<Rightarrow> False
           | Some parsed \<Rightarrow>
               (let urlPath = toLowerCase (pathname parsed)
                in list_ex (\<lambda>ext. js_includes urlPath (''.'' @ ext)) audioExtensions)))"

subsection \<open>handleAudioUrlSubmit\<close>

text \<open>
  The \<^verbatim>\<open>try\<close> block. \<open>Inl\<close> carries the error thrown and the state at the throw.
  showNotification also starts a timer that clears the notification three seconds
  later; the timer is outside the model.
\<close>

definition audio_try :: "platform \<Rightarrow> string \<Rightarrow> string \<Rightarrow> chat \<Rightarrow> (js_exn \<times> chat) + chat" where
  "audio_try P u sid s =
     (let (uid, s1) = draw_uuid P s;
          (t, s2) = read_date P s1;
          processingMessage =
            \<lparr>msg_id = uid, msg_type = ''system'',
             content = JStr (''Processing audio from URL: '' @ u @ ''...''), timestamp = t,
             agentUsed = None, msg_sessionId = None\<rparr>;
          s3 = setMessages (\<lambda>prev. prev @ [processingMessage]) s2;
          (r, net') = transcribeAudioFromUrl (service P) (JStr u) (sent s3);
          s4 = s3\<lparr>sent := net'\<rparr>
      in case r of
           Inl e \<Rightarrow> Inl (e, s4)
         | Inr transcribedText \<Rightarrow>
             (let s5 = setMessages (filter (\<lambda>msg. msg_id msg \<noteq> msg_id processingMessage)) s4;
                  s6 = s5\<lparr>notification := Some ''Transcription completed''\<rparr>;
                  (uid', s7) = draw_uuid P s6;
                  (t', s8) = read_date P s7;
                  userMessage =
                    \<lparr>msg_id = uid', msg_type = ''user'', content = transcribedText,
                     timestamp = t', agentUsed = None, msg_sessionId = None\<rparr>;
                  s9 = setMessages (\<lambda>prev. prev @ [userMessage]) s8;
                  s10 = s9\<lparr>isLoading := True\<rparr>;
                  (r', net'') = sendChatMessage (service P) transcribedText (JStr sid) (sent s10);
                  s11 = s10\<lparr>sent := net''\<rparr>
              in case r' of
                   Inl e \<Rightarrow> Inl (e, s11)
                 | Inr response \<Rightarrow> add_ai_message P response s11))"

text \<open>The \<^verbatim>\<open>catch\<close> block.\<close>

definition audio_catch :: "platform \<Rightarrow> js_exn \<Rightarrow> chat \<Rightarrow> chat" where
  "audio_catch P e s =
     (let s1 = setMessages (filter (\<lambda>msg. msg_type msg \<noteq> ''system'')) s;
          (uid, s2) = draw_uuid P s1;
          (t, s3) = read_date P s2
      in setMessages
           (\<lambda>prev. prev @
              [\<lparr>msg_id = uid, msg_type = ''error'',
                content = JStr (''Error transcribing audio: '' @ exn_message e), timestamp = t,
                agentUsed = None, msg_sessionId = None\<rparr>])
           s3)"

definition handleAudioUrlSubmit :: "platform \<Rightarrow> chat \<Rightarrow> chat" where
  "handleAudioUrlSubmit P s =
     (if js_trim (audioUrl s) = [] then s\<lparr>alerts := alerts s @ [''Please enter an audio URL'']\<rparr>
      else if \<not> validateAudioUrl (parseURL P) (audioUrl s) then
        s\<lparr>alerts := alerts s @
             [''Please enter a valid audio URL (MP3, WAV, M4A, OGG, FLAC, AAC)'']\<rparr>
      else
        let s1 = s\<lparr>isProcessingAudio := True, showAudioUrlModal := False\<rparr>;
            s2 = (case audio_try P (audioUrl s) (sessionId s) s1 of
                    Inr s' \<Rightarrow> s'
                  | Inl (e, s') \<Rightarrow> audio_catch P e s')
        in s2\<lparr>isProcessingAudio := False, isLoading := False, audioUrl := []\<rparr>)"

subsection \<open>What the theorems about the two layers refer to\<close>

text \<open>The words with which each operation's error names the operation.\<close>

fun failure_label :: "api_call \<Rightarrow> string" where
  "failure_label HealthCheck = ''Health check failed''"
| "failure_label (SendChatMessage m sid) = ''Chat request failed''"
| "failure_label (ExtractMedicalInfo t) = ''Extraction failed''"
| "failure_label (GenerateDiagnosis i) = ''Diagnosis generation failed''"
| "failure_label GetSessions = ''Failed to get sessions''"
| "failure_label (DeleteSession sid) = ''Failed to delete session''"
| "failure_label (TranscribeAudioFromUrl u) = ''Audio transcription failed''"
| "failure_label GetStatus = ''Failed to get system status''"

text \<open>The operations whose catch block looks at \<^verbatim>\<open>error.response\<close>.\<close>

fun reads_detail :: "api_call \<Rightarrow> bool" where
  "reads_detail HealthCheck = False"
| "reads_detail GetSessions = False"
| "reads_detail GetStatus = False"
| "reads_detail c = True"


text \<open>The processing notice handleAudioUrlSubmit adds for the URL \<open>u\<close> in the state \<open>s\<close>.\<close>

definition notice_of :: "platform \<Rightarrow> string \<Rightarrow> chat \<Rightarrow> message" where
  "notice_of P u s =
     \<lparr>msg_id = uuidv4 P (uuids_drawn s), msg_type = ''system'',
      content = JStr (''Processing audio from URL: '' @ u @ ''...''),
      timestamp = newDate P (dates_read s), agentUsed = None, msg_sessionId = None\<rparr>"

subsection \<open>An example platform\<close>

text \<open>
  A service that transcribes every audio URL to the text given and answers every chat
  message with the same reply, a service that is down, and a component state around them.
\<close>

text \<open>Decimal digits of a natural number, most significant first, for the identifiers of the
  example.\<close>

fun dec_digits :: "nat \<Rightarrow> string" where
  "dec_digits n =
     (if n < 10 then [char_of (48 + n)]
      else dec_digits (n div 10) @ [char_of (48 + n mod 10)])"

declare dec_digits.simps [simp del]

definition demo_reply :: jsval where
  "demo_reply = JObj [(''response'', JStr ''Noted''), (''agent_used'', JStr ''medical_agent''),
                      (''session_id'', JStr ''s-1'')]"

definition demo_service :: "string \<Rightarrow> backend" where
  "demo_service transcription net r =
     (if req_url r = ''/api/transcribe-url'' then
        Resolved (JObj [(''transcription'', JStr transcription)])
      else if req_url r = ''/api/chat'' then Resolved demo_reply
      else Rejected \<lparr>err_message = ''Network Error'', err_response = None\<rparr>)"

definition down_service :: backend where
  "down_service net r = Rejected \<lparr>err_message = ''Network Error'', err_response = None\<rparr>"

definition demo_platform :: "backend \<Rightarrow> platform" where
  "demo_platform be =
     \<lparr>service = be,
      parseURL = (\<lambda>u. if u = ''https://example.com/a.mp3'' then Some \<lparr>pathname = ''/a.mp3''\<rparr>
                      else None),
      uuidv4 = (\<lambda>n. ''id-'' @ dec_digits n),
      newDate = (\<lambda>n. 1000 + n)\<rparr>"

definition demo_chat :: "message list \<Rightarrow> string \<Rightarrow> chat" where
  "demo_chat ms input =
     \<lparr>messages = ms, inputMessage = input, isLoading = False, isProcessingAudio = False,
      showAudioUrlModal = True, audioUrl = ''https://example.com/a.mp3'', notification = None,
      sessionId = ''s-1'', sent = [], alerts = [], uuids_drawn = 0, dates_read = 0\<rparr>"

definition old_notice :: message where
  "old_notice = \<lparr>msg_id = ''old-1'', msg_type = ''system'', content = JStr ''Processing...'',
                  timestamp = 1, agentUsed = None, msg_sessionId = None\<rparr>"

definition old_question :: message where
  "old_question = \<lparr>msg_id = ''old-2'', msg_type = ''user'', content = JStr ''hello'',
                    timestamp = 2, agentUsed = None, msg_sessionId = None\<rparr>"

section \<open>The tool set of the orchestrator\<close>

text \<open>
  The backend (medical\_extraction\_system.py, flask\_backend.py) is not among the sources;
  the README gives its data model and the specification its tools. This section follows
  the specification, section 4.4.
\<close>

text \<open>Modelled from the spec: the value of a PatientIdentification field, a string or (for
  the age) an integer. The Pydantic model of the README declares the six fields.\<close>

datatype field_value = Text string | Number int

text \<open>Modelled from the spec: the explicit "not provided" sentinel, spelled as the README
  spells it.\<close>

definition not_provided :: field_value where
  "not_provided = Text ''Not provided''"

text \<open>Modelled from the spec: the six fields of PatientIdentification (name, age,
  identification number, gender, phone, address).\<close>

definition patient_fields :: "string list" where
  "patient_fields = [''name'', ''age'', ''identification_number'', ''gender'', ''phone'', ''address'']"

text \<open>Modelled from the spec: what the reasoning service returns for the MedicalExtraction
  schema. Its patient information may omit fields.\<close>

record raw_extraction =
  raw_symptoms :: "string list"
  raw_patient_info :: "(string \<times> field_value) list"
  raw_reason :: string

text \<open>Modelled from the spec: MedicalExtraction, a list of symptom strings, one
  PatientIdentification and one reason-for-consultation string.\<close>

record MedicalExtraction =
  symptoms :: "string list"
  patient_info :: "(string \<times> field_value) list"
  reason_for_consultation :: string

text \<open>Modelled from the spec: the name-to-gender heuristic table is pluggable, so it is a
  parameter: pairs of a first name and a gender. The first name of a full name is what
  stands before its first space.\<close>

type_synonym gender_table = "(string \<times> string) list"

definition first_name :: "string \<Rightarrow> string" where
  "first_name n = takeWhile (\<lambda>c. c \<noteq> CHR '' '') n"

text \<open>Modelled from the spec: the gender inference rule, a pure function from the name to
  the inferred gender. A first name the table lists with exactly one gender is
  unambiguous; one it does not list (foreign) or lists with several (ambiguous, unisex)
  fails soft to the sentinel.\<close>

definition infer_gender :: "gender_table \<Rightarrow> string \<Rightarrow> field_value" where
  "infer_gender table n =
     (case remdups (map snd (filter (\<lambda>(fn, g). fn = first_name n) table)) of
        [g] \<Rightarrow> Text g
      | _ \<Rightarrow> not_provided)"

text \<open>Modelled from the spec: the gender of the output. If the gender is absent and a name
  is present, it is inferred from the name; a gender that is present is kept.\<close>

definition gender_rule :: "gender_table \<Rightarrow> (string \<times> field_value) list \<Rightarrow> field_value" where
  "gender_rule table raw =
     (case map_of raw ''gender'' of
        Some g \<Rightarrow> g
      | None \<Rightarrow>
          (case map_of raw ''name'' of
             Some (Text n) \<Rightarrow> infer_gender table n
           | _ \<Rightarrow> not_provided))"

text \<open>Modelled from the spec: the local post-processing of extract. Every one of the six
  fields is populated: with the service's value, or with the sentinel where the service
  omitted the field (the gender through the inference rule).\<close>

definition fill_patient_info ::
    "gender_table \<Rightarrow> (string \<times> field_value) list \<Rightarrow> (string \<times> field_value) list" where
  "fill_patient_info table raw =
     map (\<lambda>f. (f, if f = ''gender'' then gender_rule table raw
                   else (case map_of raw f of Some v \<Rightarrow> v | None \<Rightarrow> not_provided)))
       patient_fields"

text \<open>Modelled from the spec: the external reasoning service. It is given a prompt and
  returns a structure or free text, or fails with a transient or a permanent error; what
  it answers may depend on the prompts it was sent before. Calling it appends the prompt
  to the list of prompts sent.\<close>

datatype svc_failure = Transient | Permanent

datatype prompt = ExtractPrompt string | DiagnosePrompt MedicalExtraction

datatype reply = Structured raw_extraction | FreeText string

type_synonym reasoning_service = "prompt list \<Rightarrow> prompt \<Rightarrow> svc_failure + reply"

definition call_service ::
    "reasoning_service \<Rightarrow> prompt \<Rightarrow> prompt list \<Rightarrow> (svc_failure + reply) \<times> prompt list" where
  "call_service svc p calls = (svc calls p, calls @ [p])"

text \<open>Modelled from the spec: the error taxonomy, as far as the tools return it.\<close>

datatype tool_error = ValidationError | ExternalServiceError

text \<open>Modelled from the spec: the error policy of extract and diagnose. The external call
  is retried once on a transient failure, then a typed ExternalServiceError surfaces.\<close>

definition call_with_retry ::
    "reasoning_service \<Rightarrow> prompt \<Rightarrow> prompt list \<Rightarrow> (tool_error + reply) \<times> prompt list" where
  "call_with_retry svc p calls =
     (case call_service svc p calls of
        (Inr r, calls1) \<Rightarrow> (Inr r, calls1)
      | (Inl Permanent, calls1) \<Rightarrow> (Inl ExternalServiceError, calls1)
      | (Inl Transient, calls1) \<Rightarrow>
          (case call_service svc p calls1 of
             (Inr r, calls2) \<Rightarrow> (Inr r, calls2)
           | (Inl f, calls2) \<Rightarrow> (Inl ExternalServiceError, calls2)))"

text \<open>Modelled from the spec: the tool extract(text), here \<open>extract_tool\<close>. It prompts the reasoning service for
  the MedicalExtraction schema and post-processes the result; free text in place of the
  structure is malformed output.\<close>

definition extract_tool ::
    "reasoning_service \<Rightarrow> gender_table \<Rightarrow> string \<Rightarrow> prompt list
       \<Rightarrow> (tool_error + MedicalExtraction) \<times> prompt list" where
  "extract_tool svc table txt calls =
     (case call_with_retry svc (ExtractPrompt txt) calls of
        (Inl e, calls') \<Rightarrow> (Inl e, calls')
      | (Inr (FreeText t), calls') \<Rightarrow> (Inl ExternalServiceError, calls')
      | (Inr (Structured raw), calls') \<Rightarrow>
          (Inr \<lparr>symptoms = raw_symptoms raw,
                patient_info = fill_patient_info table (raw_patient_info raw),
                reason_for_consultation = raw_reason raw\<rparr>,
           calls'))"

text \<open>Modelled from the spec: the tool diagnose(extraction). With an empty symptom list it
  returns a ValidationError rather than calling the external service; otherwise it
  prompts the service with the extraction and returns its text.\<close>

definition diagnose ::
    "reasoning_service \<Rightarrow> MedicalExtraction \<Rightarrow> prompt list \<Rightarrow> (tool_error + string) \<times> prompt list" where
  "diagnose svc extraction calls =
     (if symptoms extraction = [] then (Inl ValidationError, calls)
      else
        case call_with_retry svc (DiagnosePrompt extraction) calls of
          (Inl e, calls') \<Rightarrow> (Inl e, calls')
        | (Inr (Structured raw), calls') \<Rightarrow> (Inl ExternalServiceError, calls')
        | (Inr (FreeText d), calls') \<Rightarrow> (Inr d, calls'))"

subsection \<open>An example table and reasoning service\<close>

definition demo_table :: gender_table where
  "demo_table = [(''Maria'', ''Female''), (''John'', ''Male''), (''Alex'', ''Male''),
                 (''Alex'', ''Female'')]"

definition demo_raw :: raw_extraction where
  "demo_raw = \<lparr>raw_symptoms = [''cough'', ''fever''],
               raw_patient_info = [(''name'', Text ''Maria Rodriguez''), (''age'', Number 28)],
               raw_reason = ''persistent cough and fever''\<rparr>"

definition demo_reasoning :: reasoning_service where
  "demo_reasoning calls p =
     (case p of
        ExtractPrompt t \<Rightarrow> Inr (Structured demo_raw)
      | DiagnosePrompt e \<Rightarrow> Inr (FreeText ''Probable respiratory infection''))"



section \<open>Properties\<close>

subsection \<open>The API service layer\<close>

lemma axios_case:
  "(case axios_request be r net of (Resolved d, n) \<Rightarrow> (f d, n) | (Rejected e, n) \<Rightarrow> (g e, n)) =
     ((case be net r of Resolved d \<Rightarrow> f d | Rejected e \<Rightarrow> g e), net @ [r])"
  by (simp add: axios_request_def split: axios_outcome.splits)

lemma sendChatMessage_unfold:
  "sendChatMessage be m sid net =
     ((case be net (mk_request POST ''/api/chat''
                     (Some (JObj ((''message'', m) # (if js_truthy sid then [(''session_id'', sid)] else []))))
                     None) of
         Resolved d \<Rightarrow> Inr d
       | Rejected e \<Rightarrow> Inl (rethrow_detail ''Chat request failed'' e)),
      net @ [mk_request POST ''/api/chat''
               (Some (JObj ((''message'', m) # (if js_truthy sid then [(''session_id'', sid)] else []))))
               None])"
  by (simp add: sendChatMessage_def axios_case Let_def)

lemma transcribeAudioFromUrl_unfold:
  "transcribeAudioFromUrl be u net =
     ((case be net (mk_request POST ''/api/transcribe-url'' (Some (JObj [(''audio_url'', u)]))
                      (Some 120000)) of
         Resolved d \<Rightarrow>
           (case get_prop d ''transcription'' of
              Inr t \<Rightarrow> Inr t
            | Inl te \<Rightarrow> Inl (Error (''Network error: '' @ exn_message te)))
       | Rejected e \<Rightarrow> Inl (rethrow_detail ''Audio transcription failed'' e)),
      net @ [mk_request POST ''/api/transcribe-url'' (Some (JObj [(''audio_url'', u)]))
               (Some 120000)])"
  by (simp add: transcribeAudioFromUrl_def axios_request_def split: axios_outcome.splits sum.splits)

lemmas api_unfold =
  healthCheck_def extractMedicalInfo_def generateDiagnosis_def getSessions_def deleteSession_def
  getStatus_def axios_case sendChatMessage_unfold transcribeAudioFromUrl_unfold

lemma api_rejected:
  assumes "be net (last (snd (apiService be c net))) = Rejected e"
  shows "fst (apiService be c net) =
           Inl (if reads_detail c then rethrow_detail (failure_label c) e
                else rethrow_plain (failure_label c) e)"
  using assms by (cases c) (simp_all add: api_unfold)

text \<open>
  Claim C4, as the code has it. sendChatMessage sends one request, a POST to
  \<^verbatim>\<open>/api/chat\<close>, whose body holds the message under \<^verbatim>\<open>message\<close> and holds a
  \<^verbatim>\<open>session_id\<close> exactly when the session id given is truthy, which for a string means
  not empty; the session id is then passed through unchanged. When the service answers
  the request, the result is the response data as the service sent it, so it carries a
  response text, the agent used and a session id when the service's answer does.
\<close>

theorem sendChatMessage_contract:
  "\<exists>r kvs. snd (sendChatMessage be message sid net) = net @ [r]
     \<and> req_method r = POST \<and> req_url r = ''/api/chat'' \<and> req_data r = Some (JObj kvs)
     \<and> map fst kvs = (if js_truthy sid then [''message'', ''session_id''] else [''message''])
     \<and> map_of kvs ''message'' = Some message
     \<and> map_of kvs ''session_id'' = (if js_truthy sid then Some sid else None)
     \<and> (\<forall>d. be net r = Resolved d \<longrightarrow> fst (sendChatMessage be message sid net) = Inr d)"
  by (simp add: sendChatMessage_unfold mk_request_def)

theorem sendChatMessage_contract_witness:
  "sendChatMessage (\<lambda>net r. Resolved (JObj [(''response'', JStr ''Hello''),
        (''agent_used'', JStr ''medical_agent''), (''session_id'', JStr ''s-1'')]))
      (JStr ''fever'') (JStr ''s-1'') [] =
     (Inr (JObj [(''response'', JStr ''Hello''), (''agent_used'', JStr ''medical_agent''),
                 (''session_id'', JStr ''s-1'')]),
      [\<lparr>req_method = POST, req_baseURL = ''http://localhost:5000'', req_url = ''/api/chat'',
        req_headers = [(''Content-Type'', ''application/json'')],
        req_data = Some (JObj [(''message'', JStr ''fever''), (''session_id'', JStr ''s-1'')]),
        req_timeout = None\<rparr>])"
  using sendChatMessage_contract [of "\<lambda>net r. Resolved (JObj [(''response'', JStr ''Hello''),
        (''agent_used'', JStr ''medical_agent''), (''session_id'', JStr ''s-1'')])"
      "JStr ''fever''" "JStr ''s-1''" "[]"]
  by (simp add: sendChatMessage_unfold mk_request_def api_def API_BASE_URL_def)

text \<open>
  The claim as written fails for the empty string: it is a session id that is not
  \<^verbatim>\<open>null\<close>, and the request has no \<^verbatim>\<open>session_id\<close>.
\<close>

theorem sendChatMessage_empty_session_counterexample:
  "JStr [] \<noteq> JNull \<and>
   map req_data (snd (sendChatMessage (\<lambda>net r. Resolved JNull) (JStr ''fever'') (JStr []) [])) =
     [Some (JObj [(''message'', JStr ''fever'')])]"
  by (simp add: sendChatMessage_unfold mk_request_def)

text \<open>
  Claim C5, as the code has it. Let the service reject the request an operation sends
  (the last of the requests sent) with the error \<open>e\<close>. Then the operation returns no
  result: it throws. healthCheck, getSessions and getStatus throw an error whose message
  is the operation's label followed by \<open>e\<close>'s message, whether or not the service
  answered. The other five throw \<^verbatim>\<open>Network error:\<close> followed by \<open>e\<close>'s message, without the
  operation's label, when no response was received. When the service answered, they
  throw the operation's label followed by the detail it reported under \<^verbatim>\<open>error\<close>, as
  converted to a string, when that detail is truthy (for a string: the string itself,
  when it is not empty), and followed by \<open>e\<close>'s message when it is not. (A response body
  that is \<^verbatim>\<open>null\<close> and a detail that cannot be converted are left aside.)
\<close>

theorem apiService_failure:
  assumes "be net (last (snd (apiService be c net))) = Rejected e"
  shows "(\<exists>x. fst (apiService be c net) = Inl x) \<and>
    (\<not> reads_detail c \<longrightarrow>
       fst (apiService be c net) = Inl (Error (failure_label c @ '': '' @ err_message e))) \<and>
    (reads_detail c \<and> err_response e = None \<longrightarrow>
       fst (apiService be c net) = Inl (Error (''Network error: '' @ err_message e))) \<and>
    (\<forall>body detail shown.
       reads_detail c \<and> err_response e = Some body \<and> get_prop body ''error'' = Inr detail
         \<and> js_truthy detail \<and> js_toString detail = Inr shown \<longrightarrow>
       fst (apiService be c net) = Inl (Error (failure_label c @ '': '' @ shown))) \<and>
    (\<forall>body d.
       reads_detail c \<and> err_response e = Some body \<and> get_prop body ''error'' = Inr (JStr d)
         \<and> d \<noteq> [] \<longrightarrow>
       fst (apiService be c net) = Inl (Error (failure_label c @ '': '' @ d))) \<and>
    (\<forall>body detail.
       reads_detail c \<and> err_response e = Some body \<and> get_prop body ''error'' = Inr detail
         \<and> \<not> js_truthy detail \<longrightarrow>
       fst (apiService be c net) = Inl (Error (failure_label c @ '': '' @ err_message e)))"
proof -
  note r = api_rejected [of be net c e, OF assms]
  have a: "\<exists>x. fst (apiService be c net) = Inl x"
    using r by simp
  have b: "fst (apiService be c net) = Inl (Error (failure_label c @ '': '' @ err_message e))"
    if "\<not> reads_detail c"
    using r that by (simp add: rethrow_plain_def)
  have c: "fst (apiService be c net) = Inl (Error (''Network error: '' @ err_message e))"
    if "reads_detail c" "err_response e = None"
    using r that by (simp add: rethrow_detail_def)
  have d: "fst (apiService be c net) = Inl (Error (failure_label c @ '': '' @ shown))"
    if "reads_detail c" "err_response e = Some body" "get_prop body ''error'' = Inr detail"
      "js_truthy detail" "js_toString detail = Inr shown" for body detail shown
    using r that by (simp add: rethrow_detail_def js_or_def)
  have f: "fst (apiService be c net) = Inl (Error (failure_label c @ '': '' @ err_message e))"
    if "reads_detail c" "err_response e = Some body" "get_prop body ''error'' = Inr detail"
      "\<not> js_truthy detail" for body detail
    using r that by (simp add: rethrow_detail_def js_or_def)
  have g: "fst (apiService be c net) = Inl (Error (failure_label c @ '': '' @ w))"
    if "reads_detail c" "err_response e = Some body" "get_prop body ''error'' = Inr (JStr w)"
      "w \<noteq> []" for body w
    using d [of body "JStr w" w] that by simp
  from a b c d f g show ?thesis by blast
qed

theorem apiService_failure_witness:
  "fst (apiService
          (\<lambda>net r. Rejected \<lparr>err_message = ''Request failed with status code 400'',
                              err_response = Some (JObj [(''error'', JStr ''Message is required'')])\<rparr>)
          (SendChatMessage (JStr []) JNull) []) =
     Inl (Error ''Chat request failed: Message is required'') \<and>
   fst (apiService
          (\<lambda>net r. Rejected \<lparr>err_message = ''Request failed with status code 500'',
                              err_response = Some (JObj [(''error'', JNum (JsNumber True ''1e+21''))])\<rparr>)
          (ExtractMedicalInfo (JStr ''fever'')) []) =
     Inl (Error ''Extraction failed: 1e+21'') \<and>
   fst (apiService
          (\<lambda>net r. Rejected \<lparr>err_message = ''Request failed with status code 500'',
                              err_response = Some (JObj [(''error'', JStr [])])\<rparr>)
          (DeleteSession ''s-1'') []) =
     Inl (Error ''Failed to delete session: Request failed with status code 500'') \<and>
   fst (apiService down_service (SendChatMessage (JStr ''fever'') JNull) []) =
     Inl (Error ''Network error: Network Error'') \<and>
   fst (apiService down_service GetStatus []) =
     Inl (Error ''Failed to get system status: Network Error'')"
proof -
  let ?e = "\<lparr>err_message = ''Request failed with status code 400'',
             err_response = Some (JObj [(''error'', JStr ''Message is required'')])\<rparr>"
  let ?n = "\<lparr>err_message = ''Request failed with status code 500'',
             err_response = Some (JObj [(''error'', JNum (JsNumber True ''1e+21''))])\<rparr>"
  let ?f = "\<lparr>err_message = ''Request failed with status code 500'',
             err_response = Some (JObj [(''error'', JStr [])])\<rparr>"
  let ?down = "\<lparr>err_message = ''Network Error'', err_response = None\<rparr>"
  have "fst (apiService (\<lambda>net r. Rejected ?e) (SendChatMessage (JStr []) JNull) []) =
      Inl (Error ''Chat request failed: Message is required'')"
    using apiService_failure [of "\<lambda>net r. Rejected ?e" "[]" "SendChatMessage (JStr []) JNull" ?e]
    by simp
  moreover have "fst (apiService (\<lambda>net r. Rejected ?n) (ExtractMedicalInfo (JStr ''fever'')) []) =
      Inl (Error ''Extraction failed: 1e+21'')"
    using apiService_failure [of "\<lambda>net r. Rejected ?n" "[]" "ExtractMedicalInfo (JStr ''fever'')" ?n]
    by simp
  moreover have "fst (apiService (\<lambda>net r. Rejected ?f) (DeleteSession ''s-1'') []) =
      Inl (Error ''Failed to delete session: Request failed with status code 500'')"
    using apiService_failure [of "\<lambda>net r. Rejected ?f" "[]" "DeleteSession ''s-1''" ?f]
    by simp
  moreover have "fst (apiService down_service (SendChatMessage (JStr ''fever'') JNull) []) =
      Inl (Error ''Network error: Network Error'')"
    using apiService_failure [of down_service "[]" "SendChatMessage (JStr ''fever'') JNull" ?down]
    by (simp add: down_service_def)
  moreover have "fst (apiService down_service GetStatus []) =
      Inl (Error ''Failed to get system status: Network Error'')"
    using apiService_failure [of down_service "[]" GetStatus ?down]
    by (simp add: down_service_def)
  ultimately show ?thesis by (simp only: simp_thms)
qed

text \<open>
  The claim as written fails twice. For healthCheck the service answers with an error
  body, and the message thrown has neither the detail reported nor the words of a
  network error. For sendChatMessage no response is received, and the message thrown
  does not name the operation.
\<close>

theorem apiService_failure_counterexample:
  "fst (apiService
          (\<lambda>net r. Rejected \<lparr>err_message = ''Request failed with status code 500'',
                              err_response = Some (JObj [(''error'', JStr ''Model unavailable'')])\<rparr>)
          HealthCheck []) =
     Inl (Error ''Health check failed: Request failed with status code 500'') \<and>
   \<not> js_includes ''Health check failed: Request failed with status code 500'' ''Model unavailable'' \<and>
   \<not> js_includes ''Health check failed: Request failed with status code 500'' ''Network error'' \<and>
   fst (apiService down_service (SendChatMessage (JStr ''fever'') (JStr ''s-1'')) []) =
     Inl (Error ''Network error: Network Error'') \<and>
   \<not> js_includes ''Network error: Network Error'' ''Chat'' \<and>
   \<not> js_includes ''Network error: Network Error'' ''chat''"
  by (simp add: healthCheck_def axios_case rethrow_plain_def js_includes_def
        sendChatMessage_unfold down_service_def rethrow_detail_def
        sublist_Cons_right prefix_Cons)

text \<open>
  Claim C7. The instance is created without a timeout, and every operation sends exactly
  one request: the one of transcribeAudioFromUrl with a timeout of 120000 milliseconds,
  those of the seven others with none.
\<close>

theorem apiService_timeouts:
  "map req_timeout (drop (length net) (snd (apiService be c net))) =
     [case c of TranscribeAudioFromUrl u \<Rightarrow> Some 120000 | _ \<Rightarrow> None]"
  by (cases c) (simp_all add: api_unfold mk_request_def api_def)

theorem apiService_timeouts_witness:
  "map req_timeout (snd (apiService (\<lambda>net r. Resolved JNull) (TranscribeAudioFromUrl (JStr ''u'')) [])) =
     [Some 120000] \<and>
   map req_timeout (snd (apiService (\<lambda>net r. Resolved JNull) GetStatus [])) = [None]"
  using apiService_timeouts [of "[]" "\<lambda>net r. Resolved JNull" "TranscribeAudioFromUrl (JStr ''u'')"]
    apiService_timeouts [of "[]" "\<lambda>net r. Resolved JNull" GetStatus]
  by simp

subsection \<open>validateAudioUrl\<close>

lemma js_includes_iff: "js_includes s t \<longleftrightarrow> (\<exists>pre post. s = pre @ t @ post)"
  by (simp add: js_includes_def sublist_def)

lemma list_ex_includes:
  "list_ex (\<lambda>ext. js_includes p (d @ ext)) exts \<longleftrightarrow>
     (\<exists>ext pre post. ext \<in> set exts \<and> p = pre @ d @ ext @ post)"
  unfolding list_ex_iff js_includes_iff by auto

lemma set_audioExtensions:
  "set audioExtensions = {''mp3'', ''wav'', ''m4a'', ''ogg'', ''flac'', ''aac''}"
  unfolding audioExtensions_def by (simp only: list.set)

lemma validateAudioUrl_Some:
  "parse u = Some parsed \<Longrightarrow>
     validateAudioUrl parse u =
       list_ex (\<lambda>ext. js_includes (toLowerCase (pathname parsed)) (''.'' @ ext)) audioExtensions"
  unfolding validateAudioUrl_def Let_def by (simp only: option.case)

lemma validateAudioUrl_None: "parse u = None \<Longrightarrow> \<not> validateAudioUrl parse u"
  unfolding validateAudioUrl_def by (simp only: option.case not_False_eq_True)

text \<open>
  Claim C8. validateAudioUrl returns a boolean for every string and throws for none: it
  returns true exactly when the string parses as a URL whose path, in lower case, holds
  a dot followed by one of mp3, wav, m4a, ogg, flac, aac, anywhere in the path and not
  only at its end; a string that does not parse gives false.
\<close>

theorem validateAudioUrl_iff:
  "(validateAudioUrl parse u \<longleftrightarrow>
      (\<exists>parsed ext pre post. parse u = Some parsed
         \<and> ext \<in> {''mp3'', ''wav'', ''m4a'', ''ogg'', ''flac'', ''aac''}
         \<and> toLowerCase (pathname parsed) = pre @ ''.'' @ ext @ post))
   \<and> (parse u = None \<longrightarrow> \<not> validateAudioUrl parse u)"
proof (cases "parse u")
  case None
  then show ?thesis using validateAudioUrl_None [of parse u, OF None] by (simp only: ) blast
next
  case (Some parsed)
  show ?thesis
    unfolding validateAudioUrl_Some [of parse u parsed, OF Some] list_ex_includes set_audioExtensions
    using Some by (simp only: option.inject option.distinct) blast
qed

theorem validateAudioUrl_iff_witness:
  "validateAudioUrl (\<lambda>u. if u = ''https://example.com/Audio1.MP3/download''
                          then Some \<lparr>pathname = ''/Audio1.MP3/download''\<rparr> else None)
     ''https://example.com/Audio1.MP3/download''
   \<and> \<not> validateAudioUrl (\<lambda>u. if u = ''https://example.com/Audio1.MP3/download''
                          then Some \<lparr>pathname = ''/Audio1.MP3/download''\<rparr> else None)
     ''not a url''"
proof -
  let ?parse = "\<lambda>u. if u = ''https://example.com/Audio1.MP3/download''
                          then Some \<lparr>pathname = ''/Audio1.MP3/download''\<rparr> else None"
  have low: "toLowerCase ''/Audio1.MP3/download'' = ''/audio1'' @ ''.'' @ ''mp3'' @ ''/download''"
    by code_simp
  have p: "?parse ''https://example.com/Audio1.MP3/download'' = Some \<lparr>pathname = ''/Audio1.MP3/download''\<rparr>"
    by simp
  have mem: "''mp3'' \<in> {''mp3'', ''wav'', ''m4a'', ''ogg'', ''flac'', ''aac''}"
    by simp
  have "\<exists>parsed ext pre post. ?parse ''https://example.com/Audio1.MP3/download'' = Some parsed
         \<and> ext \<in> {''mp3'', ''wav'', ''m4a'', ''ogg'', ''flac'', ''aac''}
         \<and> toLowerCase (pathname parsed) = pre @ ''.'' @ ext @ post"
    using p mem low by (metis jsurl.select_convs(1))
  then have "validateAudioUrl ?parse ''https://example.com/Audio1.MP3/download''"
    using validateAudioUrl_iff [of ?parse "''https://example.com/Audio1.MP3/download''"]
    by blast
  moreover have "\<not> validateAudioUrl ?parse ''not a url''"
    using validateAudioUrl_iff [of ?parse "''not a url''"] by simp
  ultimately show ?thesis by blast
qed

subsection \<open>The two handlers\<close>

lemma add_ai_message_Inr:
  assumes "add_ai_message P d s = Inr s'"
  shows "\<exists>m. messages s' = messages s @ [m] \<and> msg_type m = ''ai'' \<and> sent s' = sent s
           \<and> d \<noteq> JNull \<and> d \<noteq> JUndefined
           \<and> get_prop d ''response'' = Inr (content m)"
  using assms
  by (cases d)
     (auto simp: add_ai_message_def draw_uuid_def read_date_def setMessages_def Let_def
        split: sum.splits prod.splits)

lemma add_ai_message_Inl:
  assumes "add_ai_message P d s = Inl (e, s')"
  shows "messages s' = messages s \<and> sent s' = sent s \<and> (d = JNull \<or> d = JUndefined)"
  using assms
  by (cases d)
     (auto simp: add_ai_message_def draw_uuid_def read_date_def setMessages_def Let_def
        split: sum.splits prod.splits)

lemma send_catch_messages:
  "\<exists>m. messages (send_catch P e s) = messages s @ [m] \<and> msg_type m = ''error''
      \<and> content m = JStr (''Error: '' @ exn_message e) \<and> sent (send_catch P e s) = sent s"
  by (simp add: send_catch_def draw_uuid_def read_date_def setMessages_def Let_def)

lemma send_try_Inr:
  assumes "send_try P u sid s = Inr s'"
  shows "\<exists>m d. messages s' = messages s @ [m] \<and> msg_type m = ''ai''
           \<and> fst (sendChatMessage (service P) (content u) (JStr sid) (sent s)) = Inr d
           \<and> d \<noteq> JNull \<and> d \<noteq> JUndefined"
  using assms
  by (auto simp: send_try_def Let_def split: prod.splits sum.splits dest!: add_ai_message_Inr)

lemma send_try_Inl:
  assumes "send_try P u sid s = Inl (e, s')"
  shows "messages s' = messages s
           \<and> (\<forall>d. fst (sendChatMessage (service P) (content u) (JStr sid) (sent s)) = Inr d
                 \<longrightarrow> d = JNull \<or> d = JUndefined)"
  using assms
  by (auto simp: send_try_def Let_def split: prod.splits sum.splits dest!: add_ai_message_Inl)


lemma audio_try_rejected:
  assumes "transcribeAudioFromUrl (service P) (JStr u) (sent s) = (Inl e, netT)"
  shows "\<exists>sf. audio_try P u sid s = Inl (e, sf) \<and> messages sf = messages s @ [notice_of P u s]
           \<and> sent sf = netT"
  using assms
  by (simp add: audio_try_def draw_uuid_def read_date_def setMessages_def Let_def notice_of_def)

lemma audio_try_transcribed:
  assumes "transcribeAudioFromUrl (service P) (JStr u) (sent s) = (Inr t, netT)"
    and "sendChatMessage (service P) t (JStr sid) netT = (r, netC)"
  shows "\<exists>s11 usr. audio_try P u sid s =
            (case r of Inl e \<Rightarrow> Inl (e, s11) | Inr response \<Rightarrow> add_ai_message P response s11)
         \<and> messages s11 =
             filter (\<lambda>m. msg_id m \<noteq> uuidv4 P (uuids_drawn s)) (messages s @ [notice_of P u s]) @ [usr]
         \<and> msg_type usr = ''user'' \<and> content usr = t
         \<and> agentUsed usr = None \<and> msg_sessionId usr = None \<and> sent s11 = netC"
proof -
  define usr where "usr = \<lparr>msg_id = uuidv4 P (Suc (uuids_drawn s)), msg_type = ''user'', content = t,
      timestamp = newDate P (Suc (dates_read s)), agentUsed = None, msg_sessionId = None\<rparr>"
  define s11 where "s11 = s\<lparr>notification := Some ''Transcription completed'',
      uuids_drawn := Suc (Suc (uuids_drawn s)), dates_read := Suc (Suc (dates_read s)),
      messages := filter (\<lambda>m. msg_id m \<noteq> uuidv4 P (uuids_drawn s)) (messages s) @ [usr],
      isLoading := True, sent := netC\<rparr>"
  have "audio_try P u sid s =
      (case r of Inl e \<Rightarrow> Inl (e, s11) | Inr response \<Rightarrow> add_ai_message P response s11)"
    using assms
    by (cases r)
       (simp_all add: audio_try_def draw_uuid_def read_date_def setMessages_def Let_def s11_def
          usr_def)
  moreover have "messages s11 =
      filter (\<lambda>m. msg_id m \<noteq> uuidv4 P (uuids_drawn s)) (messages s @ [notice_of P u s]) @ [usr]"
    by (simp add: s11_def notice_of_def)
  moreover have "msg_type usr = ''user''" "content usr = t" "agentUsed usr = None"
    "msg_sessionId usr = None" "sent s11 = netC"
    by (simp_all add: usr_def s11_def)
  ultimately show ?thesis by blast
qed

lemma audio_catch_messages:
  "\<exists>x. messages (audio_catch P e s) = filter (\<lambda>m. msg_type m \<noteq> ''system'') (messages s) @ [x]
      \<and> msg_type x = ''error''
      \<and> content x = JStr (''Error transcribing audio: '' @ exn_message e)
      \<and> sent (audio_catch P e s) = sent s"
  by (simp add: audio_catch_def draw_uuid_def read_date_def setMessages_def Let_def)

lemma handleAudioUrlSubmit_run:
  assumes "js_trim (audioUrl s) \<noteq> []" and "validateAudioUrl (parseURL P) (audioUrl s)"
  shows "handleAudioUrlSubmit P s =
     (case audio_try P (audioUrl s) (sessionId s)
             (s\<lparr>isProcessingAudio := True, showAudioUrlModal := False\<rparr>) of
        Inr s' \<Rightarrow> s'
      | Inl (e, s') \<Rightarrow> audio_catch P e s')
     \<lparr>isProcessingAudio := False, isLoading := False, audioUrl := []\<rparr>"
  using assms by (simp add: handleAudioUrlSubmit_def Let_def)

lemma audio_try_Inl:
  assumes "audio_try P u sid s = Inl (e, sf)"
  shows "messages sf = messages s @ [notice_of P u s]
     \<or> (\<exists>usr. msg_type usr = ''user''
           \<and> messages sf =
               filter (\<lambda>m. msg_id m \<noteq> msg_id (notice_of P u s)) (messages s @ [notice_of P u s])
                 @ [usr])"
proof -
  obtain rt netT where T: "transcribeAudioFromUrl (service P) (JStr u) (sent s) = (rt, netT)"
    by (cases "transcribeAudioFromUrl (service P) (JStr u) (sent s)")
  show ?thesis
  proof (cases rt)
    case (Inl e')
    with T audio_try_rejected [of P u s e' netT sid] assms show ?thesis by auto
  next
    case (Inr t)
    obtain r netC where C: "sendChatMessage (service P) t (JStr sid) netT = (r, netC)"
      by (cases "sendChatMessage (service P) t (JStr sid) netT")
    from audio_try_transcribed [OF T [unfolded Inr] C] obtain s11 usr where
      run: "audio_try P u sid s =
          (case r of Inl e \<Rightarrow> Inl (e, s11) | Inr response \<Rightarrow> add_ai_message P response s11)"
      and m: "messages s11 =
          filter (\<lambda>m. msg_id m \<noteq> uuidv4 P (uuids_drawn s)) (messages s @ [notice_of P u s]) @ [usr]"
      and usr: "msg_type usr = ''user''"
      by blast
    have id: "msg_id (notice_of P u s) = uuidv4 P (uuids_drawn s)"
      by (simp add: notice_of_def)
    have "messages sf = messages s11"
    proof (cases r)
      case (Inl e'')
      with run assms show ?thesis by simp
    next
      case (Inr d)
      with run assms have "add_ai_message P d s11 = Inl (e, sf)" by simp
      from add_ai_message_Inl [OF this] show ?thesis by simp
    qed
    with m usr id show ?thesis by metis
  qed
qed





subsection \<open>The example platform\<close>

lemma demo_fields:
  "inputMessage (demo_chat ms i) = i" "isLoading (demo_chat ms i) = False"
  "messages (demo_chat ms i) = ms" "sessionId (demo_chat ms i) = ''s-1''"
  "sent (demo_chat ms i) = []" "audioUrl (demo_chat ms i) = ''https://example.com/a.mp3''"
  "uuids_drawn (demo_chat ms i) = 0" "dates_read (demo_chat ms i) = 0"
  "service (demo_platform be) = be"
  by (simp_all add: demo_chat_def demo_platform_def)

lemma demo_trim:
  "js_trim ''  fever '' = ''fever''" "js_trim '' fever'' = ''fever''" "js_trim ''fever'' = ''fever''"
  "js_trim ''https://example.com/a.mp3'' = ''https://example.com/a.mp3''"
  by (simp_all add: js_trim_def is_whitespace_def)

lemma demo_valid: "validateAudioUrl (parseURL (demo_platform be)) ''https://example.com/a.mp3''"
proof -
  have "toLowerCase ''/a.mp3'' = ''/a'' @ ''.'' @ ''mp3'' @ []"
    by code_simp
  moreover have "''mp3'' \<in> set audioExtensions"
    by (simp add: audioExtensions_def)
  ultimately have "list_ex (\<lambda>ext. js_includes (toLowerCase ''/a.mp3'') (''.'' @ ext)) audioExtensions"
    unfolding list_ex_includes by blast
  then show ?thesis
    by (simp add: validateAudioUrl_Some [of _ _ "\<lparr>pathname = ''/a.mp3''\<rparr>"] demo_platform_def)
qed

lemma demo_chat_call:
  "sendChatMessage (demo_service t) m sid net =
     (Inr demo_reply, net @ [mk_request POST ''/api/chat''
               (Some (JObj ((''message'', m) # (if js_truthy sid then [(''session_id'', sid)] else []))))
               None])"
  by (simp add: sendChatMessage_unfold demo_service_def mk_request_def)


lemma down_transcribe_call:
  "transcribeAudioFromUrl down_service u net =
     (Inl (Error ''Network error: Network Error''),
      net @ [mk_request POST ''/api/transcribe-url'' (Some (JObj [(''audio_url'', u)]))
               (Some 120000)])"
  by (simp add: transcribeAudioFromUrl_unfold down_service_def rethrow_detail_def)

subsection \<open>The transcript\<close>

text \<open>
  Claim C9. With blank input, or while a request is in flight, handleSendMessage leaves
  the state, and with it the transcript, unchanged. Otherwise it appends exactly one
  user message, holding the trimmed input, followed by exactly one further message, and
  changes none of the messages that were there: the further message is an AI message
  when the chat call succeeds (it returns response data whose properties can be read,
  that is data other than \<^verbatim>\<open>null\<close> and \<^verbatim>\<open>undefined\<close>), and an error message otherwise.
\<close>

theorem handleSendMessage_transcript:
  "(js_trim (inputMessage s) = [] \<or> isLoading s \<longrightarrow> handleSendMessage P s = s) \<and>
   (js_trim (inputMessage s) \<noteq> [] \<and> \<not> isLoading s \<longrightarrow>
      (\<exists>u x. messages (handleSendMessage P s) = messages s @ [u, x]
         \<and> msg_type u = ''user'' \<and> content u = JStr (js_trim (inputMessage s))
         \<and> (msg_type x = ''ai'' \<or> msg_type x = ''error'')
         \<and> (msg_type x = ''ai'' \<longleftrightarrow>
              (\<exists>d. fst (sendChatMessage (service P) (JStr (js_trim (inputMessage s)))
                          (JStr (sessionId s)) (sent s)) = Inr d
                    \<and> d \<noteq> JNull \<and> d \<noteq> JUndefined))))"
proof (intro conjI impI)
  assume "js_trim (inputMessage s) = [] \<or> isLoading s"
  then show "handleSendMessage P s = s"
    by (auto simp: handleSendMessage_def)
next
  assume go: "js_trim (inputMessage s) \<noteq> [] \<and> \<not> isLoading s"
  define u where "u = \<lparr>msg_id = uuidv4 P (uuids_drawn s), msg_type = ''user'',
      content = JStr (js_trim (inputMessage s)), timestamp = newDate P (dates_read s),
      agentUsed = None, msg_sessionId = None\<rparr>"
  define s4 where "s4 = s\<lparr>uuids_drawn := Suc (uuids_drawn s), dates_read := Suc (dates_read s),
      messages := messages s @ [u], inputMessage := [], isLoading := True\<rparr>"
  have run: "handleSendMessage P s =
      (case send_try P u (sessionId s) s4 of Inr s' \<Rightarrow> s' | Inl (e, s') \<Rightarrow> send_catch P e s')
      \<lparr>isLoading := False\<rparr>"
    using go by (simp add: handleSendMessage_def draw_uuid_def read_date_def setMessages_def
        Let_def u_def s4_def)
  have s4: "messages s4 = messages s @ [u]" "sent s4 = sent s"
    by (simp_all add: s4_def)
  have u: "msg_type u = ''user''" "content u = JStr (js_trim (inputMessage s))"
    by (simp_all add: u_def)
  show "\<exists>u x. messages (handleSendMessage P s) = messages s @ [u, x]
         \<and> msg_type u = ''user'' \<and> content u = JStr (js_trim (inputMessage s))
         \<and> (msg_type x = ''ai'' \<or> msg_type x = ''error'')
         \<and> (msg_type x = ''ai'' \<longleftrightarrow>
              (\<exists>d. fst (sendChatMessage (service P) (JStr (js_trim (inputMessage s)))
                          (JStr (sessionId s)) (sent s)) = Inr d
                    \<and> d \<noteq> JNull \<and> d \<noteq> JUndefined))"
  proof (cases "send_try P u (sessionId s) s4")
    case (Inr s')
    from send_try_Inr [OF Inr] obtain m d where
      m: "messages s' = messages s4 @ [m]" "msg_type m = ''ai''"
      and d: "fst (sendChatMessage (service P) (content u) (JStr (sessionId s)) (sent s4)) = Inr d"
        "d \<noteq> JNull" "d \<noteq> JUndefined"
      by blast
    have "messages (handleSendMessage P s) = messages s @ [u, m]"
      using run Inr m s4 by simp
    with u m d s4 show ?thesis by auto
  next
    case (Inl p)
    obtain e s' where p: "p = (e, s')" by (cases p)
    from send_try_Inl [OF Inl [unfolded p]] have
      keep: "messages s' = messages s4"
      and nd: "\<forall>d. fst (sendChatMessage (service P) (content u) (JStr (sessionId s)) (sent s4)) = Inr d
                 \<longrightarrow> d = JNull \<or> d = JUndefined"
      by blast+
    from send_catch_messages [of P e s'] obtain m where
      m: "messages (send_catch P e s') = messages s' @ [m]" "msg_type m = ''error''"
      by blast
    have "messages (handleSendMessage P s) = messages s @ [u, m]"
      using run Inl p m keep s4 by simp
    with u m nd s4 show ?thesis by auto
  qed
qed

theorem handleSendMessage_transcript_witness:
  "(\<exists>u x. messages (handleSendMessage (demo_platform (demo_service [])) (demo_chat [] ''  fever ''))
            = [u, x]
      \<and> msg_type u = ''user'' \<and> content u = JStr ''fever'' \<and> msg_type x = ''ai'')
   \<and> (\<exists>u x. messages (handleSendMessage (demo_platform down_service)
                         (demo_chat [old_question] ''fever'')) = [old_question, u, x]
      \<and> msg_type u = ''user'' \<and> msg_type x = ''error'')
   \<and> handleSendMessage (demo_platform (demo_service [])) (demo_chat [old_question] '' '') =
       demo_chat [old_question] '' ''"
proof -
  have "\<exists>u x. messages (handleSendMessage (demo_platform (demo_service []))
                          (demo_chat [] ''  fever '')) = [u, x]
      \<and> msg_type u = ''user'' \<and> content u = JStr ''fever'' \<and> msg_type x = ''ai''"
    using handleSendMessage_transcript
      [of "demo_chat [] ''  fever ''" "demo_platform (demo_service [])"]
    by (auto simp: demo_fields demo_trim demo_chat_call demo_reply_def)
  moreover have "\<exists>u x. messages (handleSendMessage (demo_platform down_service)
                         (demo_chat [old_question] ''fever'')) = [old_question, u, x]
      \<and> msg_type u = ''user'' \<and> msg_type x = ''error''"
    using handleSendMessage_transcript
      [of "demo_chat [old_question] ''fever''" "demo_platform down_service"]
    by (auto simp: demo_fields demo_trim sendChatMessage_unfold down_service_def)
  moreover have "handleSendMessage (demo_platform (demo_service [])) (demo_chat [old_question] '' '')
      = demo_chat [old_question] '' ''"
    using handleSendMessage_transcript
      [of "demo_chat [old_question] '' ''" "demo_platform (demo_service [])"]
    by (simp add: demo_fields js_trim_def is_whitespace_def)
  ultimately show ?thesis by (simp only: simp_thms)
qed

text \<open>
  Claim C10. Let the audio-submission path pass its two checks and its \<^verbatim>\<open>try\<close> block
  throw \<open>e\<close> in the state \<open>sf\<close>. Then the processing notice had been added: the
  transcript of \<open>sf\<close> is the one at the start followed by the notice (the transcription
  failed), or that one with the messages of the notice's identifier removed and the user
  message added (the chat call failed). The transcript at the end is the transcript of
  \<open>sf\<close> without every message of type \<^verbatim>\<open>system\<close>, all other messages kept as they were and
  in their order, followed by exactly one error message.
\<close>

theorem audio_failure_transcript:
  assumes "js_trim (audioUrl s) \<noteq> []" and "validateAudioUrl (parseURL P) (audioUrl s)"
    and "audio_try P (audioUrl s) (sessionId s)
           (s\<lparr>isProcessingAudio := True, showAudioUrlModal := False\<rparr>) = Inl (e, sf)"
  shows "(\<exists>notice. msg_type notice = ''system''
            \<and> content notice = JStr (''Processing audio from URL: '' @ audioUrl s @ ''...'')
            \<and> (messages sf = messages s @ [notice]
                 \<or> (\<exists>usr. msg_type usr = ''user''
                       \<and> messages sf =
                           filter (\<lambda>m. msg_id m \<noteq> msg_id notice) (messages s @ [notice]) @ [usr])))
     \<and> (\<exists>x. messages (handleAudioUrlSubmit P s) =
               filter (\<lambda>m. msg_type m \<noteq> ''system'') (messages sf) @ [x]
            \<and> msg_type x = ''error''
            \<and> content x = JStr (''Error transcribing audio: '' @ exn_message e))"
proof -
  let ?s1 = "s\<lparr>isProcessingAudio := True, showAudioUrlModal := False\<rparr>"
  let ?n = "notice_of P (audioUrl s) ?s1"
  have n: "msg_type ?n = ''system''"
    "content ?n = JStr (''Processing audio from URL: '' @ audioUrl s @ ''...'')"
    by (simp_all add: notice_of_def)
  from audio_try_Inl [OF assms(3)] have
    "messages sf = messages s @ [?n]
     \<or> (\<exists>usr. msg_type usr = ''user''
           \<and> messages sf = filter (\<lambda>m. msg_id m \<noteq> msg_id ?n) (messages s @ [?n]) @ [usr])"
    by simp
  with n have first: "\<exists>notice. msg_type notice = ''system''
            \<and> content notice = JStr (''Processing audio from URL: '' @ audioUrl s @ ''...'')
            \<and> (messages sf = messages s @ [notice]
                 \<or> (\<exists>usr. msg_type usr = ''user''
                       \<and> messages sf =
                           filter (\<lambda>m. msg_id m \<noteq> msg_id notice) (messages s @ [notice]) @ [usr]))"
    by blast
  have "handleAudioUrlSubmit P s =
      (audio_catch P e sf)\<lparr>isProcessingAudio := False, isLoading := False, audioUrl := []\<rparr>"
    using handleAudioUrlSubmit_run [OF assms(1,2)] assms(3) by simp
  then have "messages (handleAudioUrlSubmit P s) = messages (audio_catch P e sf)"
    by simp
  with audio_catch_messages [of P e sf] have second:
    "\<exists>x. messages (handleAudioUrlSubmit P s) =
               filter (\<lambda>m. msg_type m \<noteq> ''system'') (messages sf) @ [x]
            \<and> msg_type x = ''error''
            \<and> content x = JStr (''Error transcribing audio: '' @ exn_message e)"
    by auto
  from first second show ?thesis by blast
qed

theorem audio_failure_transcript_witness:
  "\<exists>x. messages (handleAudioUrlSubmit (demo_platform down_service)
                   (demo_chat [old_notice, old_question] [])) = [old_question, x]
     \<and> msg_type x = ''error''
     \<and> content x = JStr ''Error transcribing audio: Network error: Network Error''"
proof -
  let ?P = "demo_platform down_service"
  let ?s = "demo_chat [old_notice, old_question] []"
  let ?s1 = "?s\<lparr>isProcessingAudio := True, showAudioUrlModal := False\<rparr>"
  have a: "js_trim (audioUrl ?s) \<noteq> []"
    by (simp add: demo_fields demo_trim)
  have b: "validateAudioUrl (parseURL ?P) (audioUrl ?s)"
    by (simp add: demo_fields demo_valid)
  have "transcribeAudioFromUrl (service ?P) (JStr (audioUrl ?s)) (sent ?s1) =
      (Inl (Error ''Network error: Network Error''),
       sent ?s1 @ [mk_request POST ''/api/transcribe-url''
                     (Some (JObj [(''audio_url'', JStr (audioUrl ?s))])) (Some 120000)])"
    by (simp only: demo_fields down_transcribe_call)
  from audio_try_rejected [OF this, of "sessionId ?s"] obtain sf where
    c: "audio_try ?P (audioUrl ?s) (sessionId ?s) ?s1 =
          Inl (Error ''Network error: Network Error'', sf)"
    and sf: "messages sf = messages ?s1 @ [notice_of ?P (audioUrl ?s) ?s1]"
    by blast
  have "filter (\<lambda>m. msg_type m \<noteq> ''system'') (messages sf) = [old_question]"
    using sf by (simp add: demo_fields notice_of_def old_notice_def old_question_def)
  with audio_failure_transcript [OF a b c] show ?thesis
    by auto
qed




subsection \<open>The tool set\<close>

lemma map_of_tabulate:
  "map_of (map (\<lambda>k. (k, g k)) ks) f = (if f \<in> set ks then Some (g f) else None)"
  by (induction ks) auto

lemma map_of_fill:
  "map_of (fill_patient_info table raw) f =
     (if f \<in> set patient_fields
      then Some (if f = ''gender'' then gender_rule table raw
                 else (case map_of raw f of Some v \<Rightarrow> v | None \<Rightarrow> not_provided))
      else None)"
  unfolding fill_patient_info_def by (rule map_of_tabulate)

lemma map_fst_fill: "map fst (fill_patient_info table raw) = patient_fields"
  by (simp add: fill_patient_info_def comp_def)

lemma extract_tool_Inr:
  assumes "extract_tool svc table txt calls = (Inr ex, calls')"
  shows "\<exists>raw. call_with_retry svc (ExtractPrompt txt) calls = (Inr (Structured raw), calls')
           \<and> patient_info ex = fill_patient_info table (raw_patient_info raw)"
  using assms
  by (auto simp: extract_tool_def split: prod.splits sum.splits reply.splits)



text \<open>
  Claim C1. Every MedicalExtraction the extract tool produces has exactly the six
  PatientIdentification fields, in order, each with a value: the value the reasoning
  service gave or, for a field it omitted, the sentinel (the gender through the
  inference rule).
\<close>

theorem extract_fields_present:
  assumes "extract_tool svc table txt calls = (Inr ex, calls')"
  shows "map fst (patient_info ex) =
           [''name'', ''age'', ''identification_number'', ''gender'', ''phone'', ''address'']
     \<and> (\<forall>f \<in> set patient_fields. \<exists>v. map_of (patient_info ex) f = Some v)
     \<and> (\<exists>raw. call_with_retry svc (ExtractPrompt txt) calls = (Inr (Structured raw), calls')
           \<and> (\<forall>f \<in> set patient_fields. f \<noteq> ''gender'' \<longrightarrow>
                 map_of (patient_info ex) f =
                   Some (case map_of (raw_patient_info raw) f of
                           Some v \<Rightarrow> v | None \<Rightarrow> not_provided)))"
proof -
  from extract_tool_Inr [OF assms] obtain raw where
    raw: "call_with_retry svc (ExtractPrompt txt) calls = (Inr (Structured raw), calls')"
      "patient_info ex = fill_patient_info table (raw_patient_info raw)"
    by blast
  have "map fst (patient_info ex) = patient_fields"
    using raw(2) by (simp add: map_fst_fill)
  then have a: "map fst (patient_info ex) =
           [''name'', ''age'', ''identification_number'', ''gender'', ''phone'', ''address'']"
    by (simp only: patient_fields_def)
  have b: "\<forall>f \<in> set patient_fields. \<exists>v. map_of (patient_info ex) f = Some v"
    using raw(2) by (simp add: map_of_fill)
  have c: "\<forall>f \<in> set patient_fields. f \<noteq> ''gender'' \<longrightarrow>
                 map_of (patient_info ex) f =
                   Some (case map_of (raw_patient_info raw) f of
                           Some v \<Rightarrow> v | None \<Rightarrow> not_provided)"
    using raw(2) by (simp add: map_of_fill)
  from a b c raw(1) show ?thesis by blast
qed

theorem extract_fields_present_witness:
  "\<exists>ex. extract_tool demo_reasoning demo_table ''Maria Rodriguez, 28, persistent cough and fever'' []
          = (Inr ex, [ExtractPrompt ''Maria Rodriguez, 28, persistent cough and fever''])
     \<and> map fst (patient_info ex) =
         [''name'', ''age'', ''identification_number'', ''gender'', ''phone'', ''address'']
     \<and> map_of (patient_info ex) ''phone'' = Some (Text ''Not provided'')"
proof -
  let ?t = "''Maria Rodriguez, 28, persistent cough and fever''"
  have c: "call_with_retry demo_reasoning (ExtractPrompt ?t) [] =
      (Inr (Structured demo_raw), [ExtractPrompt ?t])"
    by (simp add: call_with_retry_def call_service_def demo_reasoning_def)
  then obtain ex where
    ex: "extract_tool demo_reasoning demo_table ?t [] = (Inr ex, [ExtractPrompt ?t])"
    by (simp add: extract_tool_def)
  note main = extract_fields_present [OF ex]
  have names: "map fst (patient_info ex) =
         [''name'', ''age'', ''identification_number'', ''gender'', ''phone'', ''address'']"
    using main by (rule conjunct1)
  from main obtain raw where
    raw: "call_with_retry demo_reasoning (ExtractPrompt ?t) [] =
            (Inr (Structured raw), [ExtractPrompt ?t])"
    and fill: "\<forall>f \<in> set patient_fields. f \<noteq> ''gender'' \<longrightarrow>
                 map_of (patient_info ex) f =
                   Some (case map_of (raw_patient_info raw) f of
                           Some v \<Rightarrow> v | None \<Rightarrow> not_provided)"
    by blast
  from raw c have "raw = demo_raw" by simp
  moreover have "''phone'' \<in> set patient_fields" "''phone'' \<noteq> ''gender''"
    "map_of (raw_patient_info demo_raw) ''phone'' = None"
    by (simp_all add: patient_fields_def demo_raw_def)
  ultimately have "map_of (patient_info ex) ''phone'' = Some (Text ''Not provided'')"
    using fill by (simp add: not_provided_def)
  with ex names show ?thesis
    by (intro exI [of _ ex] conjI)
qed




text \<open>
  Claim C3. On an extraction whose symptom list is empty, diagnose returns a
  ValidationError and the list of prompts sent to the reasoning service is unchanged.
\<close>

theorem diagnose_empty_symptoms:
  assumes "symptoms extraction = []"
  shows "diagnose svc extraction calls = (Inl ValidationError, calls)"
  using assms by (simp add: diagnose_def)

theorem diagnose_empty_symptoms_witness:
  "diagnose demo_reasoning
     \<lparr>symptoms = [], patient_info = fill_patient_info demo_table [],
      reason_for_consultation = ''check-up''\<rparr> [] = (Inl ValidationError, [])"
  using diagnose_empty_symptoms
    [of "\<lparr>symptoms = [], patient_info = fill_patient_info demo_table [],
          reason_for_consultation = ''check-up''\<rparr>" demo_reasoning "[]"]
  by simp

end
